theory Spec2Isabelle
  imports Main
begin

section \<open>EXIF tag reconciliation of \<^verbatim>\<open>src/backend/ExifIO.ts\<close>\<close>

text \<open>
  The development embeds the two tag transformations of the class \<^verbatim>\<open>ExifIO\<close>:
  \<^verbatim>\<open>convertMetadataToHierarchy\<close> (reading: three metadata fields to a list of tag
  paths) and \<^verbatim>\<open>writeTags\<close> (writing: a list of tag paths to the three fields handed
  to the metadata writer).

  A JavaScript string is modelled as \<^typ>\<open>string\<close>; the code only compares strings,
  splits them and concatenates them, so nothing depends on the width of a character.
\<close>

subsection \<open>Values delivered by the metadata reader\<close>

text \<open>
  The parameter \<^verbatim>\<open>val\<close> of \<^verbatim>\<open>parseExifFieldAsString\<close> has the type \<^verbatim>\<open>any\<close>. The
  reader delivers, for each of the three fields, nothing at all (\<^verbatim>\<open>undefined\<close>), one
  scalar, or an array of scalars. A scalar is a string, a number (a value that looks
  like a number arrives as one) or a boolean; \<^verbatim>\<open>null\<close> and \<^verbatim>\<open>undefined\<close> are kept as
  values because a method call on them throws.

  The code never computes with a number: it only calls \<^verbatim>\<open>toString\<close> on it. The numbers
  are therefore the values of a type \<open>'n\<close> that is left open, and
  \<^verbatim>\<open>Number.prototype.toString\<close> is a parameter \<open>number_toString\<close> of every function that
  prints a value. Nothing is assumed about it; where a statement needs that a number is
  not printed as the empty string (the language never does that), it says so.
\<close>

datatype 'n scalar = Undefined | Null | Bool bool | Num 'n | Str string

datatype 'n raw = Single "'n scalar" | Array "'n scalar list"

record 'n IMetadata =
  HierarchicalSubject :: "'n raw"
  Subject :: "'n raw"
  Keywords :: "'n raw"

datatype error = TypeError

subsection \<open>Built-in operations of the language\<close>

text \<open>
  \<^verbatim>\<open>v.toString()\<close>: the method call throws a \<^verbatim>\<open>TypeError\<close> on \<^verbatim>\<open>undefined\<close> and
  \<^verbatim>\<open>null\<close>; a number is printed by the parameter.
\<close>

fun toString :: "('n \<Rightarrow> string) \<Rightarrow> 'n scalar \<Rightarrow> error + string" where
  "toString number_toString Undefined = Inl TypeError"
| "toString number_toString Null = Inl TypeError"
| "toString number_toString (Bool b) = Inr (if b then ''true'' else ''false'')"
| "toString number_toString (Num n) = Inr (number_toString n)"
| "toString number_toString (Str s) = Inr s"

text \<open>
  \<^verbatim>\<open>S.split(separator)\<close> with a string separator and no limit. With a non-empty
  separator the string is scanned from the left; at each position where the separator
  starts, the piece collected so far is emitted and the scan resumes after the
  separator. The empty string yields the one piece \<^verbatim>\<open>""\<close>. With the empty separator
  the result is the list of the characters, each as a string of its own, and the
  empty string yields the empty array.
\<close>

function split_from :: "string \<Rightarrow> string \<Rightarrow> string \<Rightarrow> string list" where
  "split_from sep piece [] = [piece]"
| "split_from sep piece (c # cs) =
     (if sep \<noteq> [] \<and> take (length sep) (c # cs) = sep
      then piece # split_from sep [] (drop (length sep) (c # cs))
      else split_from sep (piece @ [c]) cs)"
  by pat_completeness auto
termination
  by (relation "measure (\<lambda>(sep, piece, S). length S)") auto

definition String_split :: "string \<Rightarrow> string \<Rightarrow> string list" where
  "String_split S separator =
     (if separator = [] then map (\<lambda>c. [c]) S else split_from separator [] S)"

text \<open>\<^verbatim>\<open>a.join(separator)\<close> on an array of strings.\<close>

fun Array_join :: "string list \<Rightarrow> string \<Rightarrow> string" where
  "Array_join [] separator = []"
| "Array_join [x] separator = x"
| "Array_join (x # y # ys) separator = x @ separator @ Array_join (y # ys) separator"

text \<open>
  \<^verbatim>\<open>a.map(f)\<close> for a callback that may throw: the first exception ends the call.
\<close>

fun Array_map :: "('a \<Rightarrow> error + 'b) \<Rightarrow> 'a list \<Rightarrow> error + 'b list" where
  "Array_map f [] = Inr []"
| "Array_map f (x # xs) =
     (case f x of
        Inl e \<Rightarrow> Inl e
      | Inr y \<Rightarrow> (case Array_map f xs of Inl e \<Rightarrow> Inl e | Inr ys \<Rightarrow> Inr (y # ys)))"

text \<open>
  \<^verbatim>\<open>Array.from(new Set(xs))\<close>: a \<^verbatim>\<open>Set\<close> iterates in insertion order, and adding a
  value that is already present changes nothing. The set is the list of its members in
  that order.
\<close>

definition Set_add :: "'a list \<Rightarrow> 'a \<Rightarrow> 'a list" where
  "Set_add s x = (if x \<in> set s then s else s @ [x])"

definition new_Set :: "'a list \<Rightarrow> 'a list" where
  "new_Set xs = foldl Set_add [] xs"

text \<open>
  \<^verbatim>\<open>h[h.length - 1]\<close>: the last element, \<^verbatim>\<open>undefined\<close> on the empty array.
\<close>

definition last_elem :: "string list \<Rightarrow> 'n scalar" where
  "last_elem h = (if h = [] then Undefined else Str (last h))"

subsection \<open>Reading: \<^verbatim>\<open>convertMetadataToHierarchy\<close>\<close>

text \<open>
  \<^verbatim>\<open>Array.isArray(val) ? val : val?.toString() ? [val.toString()] : []\<close>. The optional
  call gives \<^verbatim>\<open>undefined\<close> on \<^verbatim>\<open>undefined\<close> and \<^verbatim>\<open>null\<close>; a string is truthy when it is
  not empty.
\<close>

fun parseExifFieldAsString :: "('n \<Rightarrow> string) \<Rightarrow> 'n raw \<Rightarrow> 'n scalar list" where
  "parseExifFieldAsString number_toString (Array val) = val"
| "parseExifFieldAsString number_toString (Single val) =
     (case toString number_toString val of
        Inl e \<Rightarrow> []
      | Inr s \<Rightarrow> if s \<noteq> [] then [Str s] else [])"

text \<open>
  The body of the function, statement by statement, under the names of its constants.
  The call of \<^verbatim>\<open>console.debug\<close> only logs and is left out.
\<close>

definition convertMetadataToHierarchy ::
  "('n \<Rightarrow> string) \<Rightarrow> 'n IMetadata \<Rightarrow> string \<Rightarrow> error + string list list" where
  "convertMetadataToHierarchy number_toString entry separator =
     (let tagHierarchy = parseExifFieldAsString number_toString (HierarchicalSubject entry);
          subject = parseExifFieldAsString number_toString (Subject entry);
          keywords = parseExifFieldAsString number_toString (Keywords entry)
      in case Array_map (\<lambda>h. case toString number_toString h of
                                Inl e \<Rightarrow> Inl e
                              | Inr s \<Rightarrow> Inr (String_split s separator)) tagHierarchy of
           Inl e \<Rightarrow> Inl e
         | Inr splitHierarchy \<Rightarrow>
            (case Array_map (toString number_toString) subject of
               Inl e \<Rightarrow> Inl e
             | Inr subject_strings \<Rightarrow>
                (case Array_map (toString number_toString) keywords of
                   Inl e \<Rightarrow> Inl e
                 | Inr keywords_strings \<Rightarrow>
                    (let allPlainTags = new_Set (subject_strings @ keywords_strings);
                         filteredTags =
                           filter (\<lambda>tag. list_all (\<lambda>h. last_elem h \<noteq> (Str tag :: 'n scalar)) splitHierarchy)
                             allPlainTags
                     in Inr (splitHierarchy @ map (\<lambda>t. [t]) filteredTags)))))"

subsection \<open>Writing: \<^verbatim>\<open>writeTags\<close>\<close>

text \<open>
  The object holds the separator. The constructor reads the stored setting,
  \<^verbatim>\<open>localStorage.getItem('hierarchical-separator') || '|'\<close>: a missing setting
  (\<^verbatim>\<open>null\<close>) and the empty string are both replaced by \<^verbatim>\<open>'|'\<close>.
  \<^verbatim>\<open>setHierarchicalSeparator\<close> stores any string in the object (the copy of the setting
  in \<^verbatim>\<open>localStorage\<close> is left out). The external tool is the list of the calls of
  \<^verbatim>\<open>ep.writeMetadata\<close> made so far: the file, the metadata object and the arguments of
  each call. \<^verbatim>\<open>writeTags\<close> returns at once on the empty list; otherwise it makes one
  call. What the tool answers is only logged, as is the list of the tags before the call.
\<close>

record ExifIO =
  hierarchicalSeparator :: string

definition ExifIO_constructor :: "string option \<Rightarrow> ExifIO" where
  "ExifIO_constructor stored =
     \<lparr>hierarchicalSeparator =
        (case stored of None \<Rightarrow> ''|'' | Some s \<Rightarrow> if s \<noteq> [] then s else ''|'')\<rparr>"

definition setHierarchicalSeparator :: "ExifIO \<Rightarrow> string \<Rightarrow> ExifIO" where
  "setHierarchicalSeparator this val = this\<lparr>hierarchicalSeparator := val\<rparr>"

record 'n writeMetadata_call =
  call_file :: string
  call_data :: "'n IMetadata"
  call_args :: "string list"

definition writeTags ::
  "ExifIO \<Rightarrow> string \<Rightarrow> string list list \<Rightarrow> 'n writeMetadata_call list \<Rightarrow>
   'n writeMetadata_call list" where
  "writeTags this filepath tagNameHierarchy ep =
     (if tagNameHierarchy = [] then ep
      else
        let subject = map last_elem tagNameHierarchy
        in ep @
           [\<lparr>call_file = filepath,
             call_data = \<lparr>HierarchicalSubject =
                       Array (map (\<lambda>hierarchy. Str (Array_join hierarchy (hierarchicalSeparator this)))
                                tagNameHierarchy),
                     Subject = Array subject,
                     Keywords = Array subject\<rparr>,
             call_args = [''overwrite_original '']\<rparr>])"


subsection \<open>The vocabulary of the specification\<close>

text \<open>
  The string representation of a scalar, and the coercion of a raw field value to a
  sequence of strings: a sequence is used element by element, a single non-empty scalar
  is a one-element sequence, an absent or empty value is the empty sequence. A scalar is
  absent when it is \<^verbatim>\<open>undefined\<close> or \<^verbatim>\<open>null\<close>, and empty when its string representation
  is the empty string.
\<close>

fun string_of :: "('n \<Rightarrow> string) \<Rightarrow> 'n scalar \<Rightarrow> string" where
  "string_of number_toString (Str s) = s"
| "string_of number_toString (Num n) = number_toString n"
| "string_of number_toString (Bool b) = (if b then ''true'' else ''false'')"
| "string_of number_toString Undefined = []"
| "string_of number_toString Null = []"

fun coerce :: "('n \<Rightarrow> string) \<Rightarrow> 'n raw \<Rightarrow> string list" where
  "coerce number_toString (Array xs) = map (string_of number_toString) xs"
| "coerce number_toString (Single v) =
     (if v = Undefined \<or> v = Null \<or> string_of number_toString v = [] then []
      else [string_of number_toString v])"

definition absent_or_empty :: "'n raw \<Rightarrow> bool" where
  "absent_or_empty f \<longleftrightarrow>
     f = Single Undefined \<or> f = Single Null \<or> f = Single (Str []) \<or> f = Array []"

text \<open>
  A field value is well formed when no element of an array is \<^verbatim>\<open>undefined\<close> or
  \<^verbatim>\<open>null\<close>: the reader delivers sequences of strings, numbers and booleans.
\<close>

fun well_formed_field :: "'n raw \<Rightarrow> bool" where
  "well_formed_field (Array xs) = list_all (\<lambda>v. v \<noteq> Undefined \<and> v \<noteq> Null) xs"
| "well_formed_field (Single v) = True"

definition well_formed :: "'n IMetadata \<Rightarrow> bool" where
  "well_formed entry \<longleftrightarrow>
     well_formed_field (HierarchicalSubject entry) \<and> well_formed_field (Subject entry) \<and>
     well_formed_field (Keywords entry)"

text \<open>
  Deduplication that keeps the first occurrence of every value, and the union of the
  flat names: the subject entries first, then the keywords entries not yet present.
\<close>

fun first_occurrences :: "'a list \<Rightarrow> 'a list" where
  "first_occurrences [] = []"
| "first_occurrences (x # xs) = x # first_occurrences (filter (\<lambda>y. y \<noteq> x) xs)"

definition flat_union :: "string list \<Rightarrow> string list \<Rightarrow> string list" where
  "flat_union subject keywords =
     first_occurrences subject @ first_occurrences (filter (\<lambda>k. k \<notin> set subject) keywords)"

text \<open>The leaf of a path is its last segment; the empty path has none.\<close>

definition leaf_names :: "string list list \<Rightarrow> string list" where
  "leaf_names paths = map last (filter (\<lambda>p. p \<noteq> []) paths)"

text \<open>The invariant of a hierarchical tag path: at least one segment, none of them empty.\<close>

definition path_invariant :: "string list \<Rightarrow> bool" where
  "path_invariant p \<longleftrightarrow> p \<noteq> [] \<and> [] \<notin> set p"

subsection \<open>Numbers for the examples\<close>

text \<open>
  The examples need numbers and their printing. They use the integers whose magnitude is
  below \<open>2\<^sup>5\<^sup>3\<close>: each of them is a number of the language, and
  \<^verbatim>\<open>Number.prototype.toString\<close> prints it as its decimal digits, with a minus sign in
  front of a negative one. No general statement of this development is about this type:
  each holds for every type of numbers and every printing.
\<close>

typedef safe_integer = "{i :: int. \<bar>i\<bar> < 2 ^ 53}"
  by (rule exI [of _ 0]) simp

definition digit_char :: "nat \<Rightarrow> char" where
  "digit_char d = ''0123456789'' ! d"

function decimal :: "nat \<Rightarrow> string" where
  "decimal n = (if n < 10 then [digit_char n] else decimal (n div 10) @ [digit_char (n mod 10)])"
  by pat_completeness auto
termination
  by (relation "measure (\<lambda>n. n)") auto

definition safe_integer_toString :: "safe_integer \<Rightarrow> string" where
  "safe_integer_toString n =
     (let i = Rep_safe_integer n
      in if i < 0 then CHR ''-'' # decimal (nat (- i)) else decimal (nat i))"

section \<open>Auxiliary facts\<close>

subsection \<open>Stringification and coercion\<close>

lemma toString_string_of: "v \<noteq> Undefined \<Longrightarrow> v \<noteq> Null \<Longrightarrow> toString nts v = Inr (string_of nts v)"
  by (cases v) simp_all

lemma Array_map_toString:
  "list_all (\<lambda>v. v \<noteq> Undefined \<and> v \<noteq> Null) xs \<Longrightarrow> Array_map (toString nts) xs = Inr (map (string_of nts) xs)"
  by (induction xs) (simp_all add: toString_string_of)

lemma Array_map_split:
  "list_all (\<lambda>v. v \<noteq> Undefined \<and> v \<noteq> Null) xs \<Longrightarrow>
   Array_map (\<lambda>h. case toString nts h of Inl e \<Rightarrow> Inl e | Inr s \<Rightarrow> Inr (String_split s sep)) xs
     = Inr (map (\<lambda>s. String_split s sep) (map (string_of nts) xs))"
  by (induction xs) (simp_all add: toString_string_of)

lemma parse_stringifiable:
  "well_formed_field f \<Longrightarrow> list_all (\<lambda>v. v \<noteq> Undefined \<and> v \<noteq> Null) (parseExifFieldAsString nts f)"
  by (cases f) (auto split: sum.splits)

lemma parse_coerce: "map (string_of nts) (parseExifFieldAsString nts f) = coerce nts f"
proof (cases f)
  case (Single v)
  then show ?thesis by (cases v) simp_all
next
  case (Array xs)
  then show ?thesis by simp
qed

lemma strings_of_field:
  "well_formed_field f \<Longrightarrow> Array_map (toString nts) (parseExifFieldAsString nts f) = Inr (coerce nts f)"
  by (simp add: Array_map_toString parse_stringifiable parse_coerce)

subsection \<open>The set of flat names\<close>

lemma set_first_occurrences: "set (first_occurrences xs) = set xs"
  by (induction xs rule: first_occurrences.induct) auto

lemma distinct_first_occurrences: "distinct (first_occurrences xs)"
  by (induction xs rule: first_occurrences.induct) (auto simp: set_first_occurrences)

lemma foldl_Set_add:
  "foldl Set_add acc xs = acc @ first_occurrences (filter (\<lambda>x. x \<notin> set acc) xs)"
proof (induction xs arbitrary: acc)
  case Nil
  then show ?case by simp
next
  case (Cons x xs)
  show ?case
  proof (cases "x \<in> set acc")
    case True
    then have "Set_add acc x = acc" by (simp add: Set_add_def)
    with True show ?thesis by (simp add: Cons.IH)
  next
    case False
    have "filter (\<lambda>y. y \<notin> set (acc @ [x])) xs = filter (\<lambda>y. y \<noteq> x) (filter (\<lambda>y. y \<notin> set acc) xs)"
      by (induction xs) auto
    moreover from False have "Set_add acc x = acc @ [x]" by (simp add: Set_add_def)
    ultimately show ?thesis using False by (simp add: Cons.IH)
  qed
qed

lemma new_Set_append: "new_Set (ss @ ks) = flat_union ss ks"
  by (simp add: new_Set_def flat_union_def foldl_Set_add set_first_occurrences)

lemma distinct_flat_union: "distinct (flat_union ss ks)"
  by (auto simp: flat_union_def distinct_first_occurrences set_first_occurrences)

lemma set_flat_union: "set (flat_union ss ks) = set ss \<union> set ks"
  by (auto simp: flat_union_def set_first_occurrences)

lemma not_leaf_iff:
  "list_all (\<lambda>h. last_elem h \<noteq> Str tag) hier \<longleftrightarrow> tag \<notin> set (leaf_names hier)"
  by (induction hier) (auto simp: last_elem_def leaf_names_def)

lemma in_leaf_names: "name \<in> set (leaf_names hier) \<longleftrightarrow> (\<exists>p\<in>set hier. p \<noteq> [] \<and> last p = name)"
  by (auto simp: leaf_names_def)

subsection \<open>The result of the reading direction in closed form\<close>

lemma convert_normal_form:
  assumes "well_formed entry"
  shows "convertMetadataToHierarchy nts entry sep =
     Inr (map (\<lambda>s. String_split s sep) (coerce nts (HierarchicalSubject entry)) @
          map (\<lambda>t. [t])
            (filter (\<lambda>t. t \<notin> set (leaf_names (map (\<lambda>s. String_split s sep)
                                                (coerce nts (HierarchicalSubject entry)))))
               (flat_union (coerce nts (Subject entry)) (coerce nts (Keywords entry)))))"
proof -
  have h: "Array_map (\<lambda>h. case toString nts h of Inl e \<Rightarrow> Inl e | Inr s \<Rightarrow> Inr (String_split s sep))
             (parseExifFieldAsString nts (HierarchicalSubject entry))
           = Inr (map (\<lambda>s. String_split s sep) (coerce nts (HierarchicalSubject entry)))"
    using assms
    by (simp add: well_formed_def Array_map_split parse_stringifiable parse_coerce del: map_map)
  have s: "Array_map (toString nts) (parseExifFieldAsString nts (Subject entry)) = Inr (coerce nts (Subject entry))"
    using assms by (simp add: well_formed_def strings_of_field)
  have k: "Array_map (toString nts) (parseExifFieldAsString nts (Keywords entry)) = Inr (coerce nts (Keywords entry))"
    using assms by (simp add: well_formed_def strings_of_field)
  show ?thesis
    unfolding convertMetadataToHierarchy_def Let_def h s k
    by (simp add: new_Set_append not_leaf_iff)
qed

subsection \<open>When the reading direction raises\<close>

text \<open>
  The only exception of \<^verbatim>\<open>convertMetadataToHierarchy\<close> is the \<^verbatim>\<open>TypeError\<close> of a method
  call on an \<^verbatim>\<open>undefined\<close> or \<^verbatim>\<open>null\<close> array element: the function returns a result
  exactly on the well-formed entries, whatever the separator.
\<close>

lemma only_TypeError: "(e :: error) = TypeError"
  by (cases e)

lemma Array_map_raises:
  "\<not> list_all (\<lambda>v. v \<noteq> Undefined \<and> v \<noteq> Null) xs \<Longrightarrow>
   Array_map (\<lambda>v. case toString nts v of Inl e \<Rightarrow> Inl e | Inr s \<Rightarrow> Inr (h s)) xs = Inl TypeError"
proof (induction xs)
  case Nil
  then show ?case by simp
next
  case (Cons x xs)
  show ?case
  proof (cases "x = Undefined \<or> x = Null")
    case True
    then show ?thesis by auto
  next
    case False
    with Cons show ?thesis
      by (simp add: toString_string_of)
  qed
qed

lemma Array_map_toString_raises:
  "\<not> list_all (\<lambda>v. v \<noteq> Undefined \<and> v \<noteq> Null) xs \<Longrightarrow> Array_map (toString nts) xs = Inl TypeError"
proof -
  have "toString nts = (\<lambda>v. case toString nts v of Inl e \<Rightarrow> Inl e | Inr s \<Rightarrow> Inr s)"
    by (rule ext) (simp split: sum.splits)
  then show "\<not> list_all (\<lambda>v. v \<noteq> Undefined \<and> v \<noteq> Null) xs \<Longrightarrow> ?thesis"
    using Array_map_raises [where xs = xs and nts = nts and h = "\<lambda>s. s"] by simp
qed

lemma parse_not_stringifiable:
  "\<not> well_formed_field f \<Longrightarrow> \<not> list_all (\<lambda>v. v \<noteq> Undefined \<and> v \<noteq> Null) (parseExifFieldAsString nts f)"
  by (cases f) auto

lemma convert_TypeError:
  assumes "\<not> well_formed entry"
  shows "convertMetadataToHierarchy nts entry sep = Inl TypeError"
proof -
  from assms consider "\<not> well_formed_field (HierarchicalSubject entry)"
    | "\<not> well_formed_field (Subject entry)" | "\<not> well_formed_field (Keywords entry)"
    by (auto simp: well_formed_def)
  then show ?thesis
  proof cases
    case 1
    from Array_map_raises [OF parse_not_stringifiable [OF 1], where h = "\<lambda>s. String_split s sep" and nts = nts]
    show ?thesis by (simp add: convertMetadataToHierarchy_def)
  next
    case 2
    from Array_map_toString_raises [OF parse_not_stringifiable [OF 2]]
    show ?thesis
      by (auto simp: convertMetadataToHierarchy_def split: sum.splits intro: only_TypeError)
  next
    case 3
    from Array_map_toString_raises [OF parse_not_stringifiable [OF 3]]
    show ?thesis
      by (auto simp: convertMetadataToHierarchy_def split: sum.splits intro: only_TypeError)
  qed
qed

subsection \<open>Splitting and joining\<close>

lemma Array_join_Cons: "Array_join (x # xs) sep = x @ concat (map (\<lambda>s. sep @ s) xs)"
  by (induction xs arbitrary: x) simp_all

lemma split_from_not_Nil: "split_from sep piece S \<noteq> []"
  by (induction sep piece S rule: split_from.induct) simp_all

lemma String_split_not_Nil: "sep \<noteq> [] \<Longrightarrow> String_split s sep \<noteq> []"
  by (simp add: String_split_def split_from_not_Nil)






section \<open>The claims\<close>

subsection \<open>Reading\<close>

text \<open>
  C1 (leaf-collision filtering). On every well-formed entry and with every separator the
  result is the list of the split hierarchical entries followed by the flat names, each
  as a one-segment path, where exactly those names of the flat union are dropped that are
  the last segment of one of the split paths. The instance of the claim,
  \<^verbatim>\<open>["Body|Arm|Hand"]\<close> with the subject \<^verbatim>\<open>["Hand", "Foot"]\<close>, is the witness.
\<close>

theorem leaf_collision_filtering:
  assumes "well_formed entry"
  shows "\<exists>hier names.
     hier = map (\<lambda>s. String_split s separator) (coerce nts (HierarchicalSubject entry)) \<and>
     names = flat_union (coerce nts (Subject entry)) (coerce nts (Keywords entry)) \<and>
     convertMetadataToHierarchy nts entry separator =
       Inr (hier @ map (\<lambda>name. [name])
                     (filter (\<lambda>name. \<not> (\<exists>p\<in>set hier. p \<noteq> [] \<and> last p = name)) names))"
  using convert_normal_form [OF assms, where sep = separator and nts = nts] by (simp add: in_leaf_names)

theorem leaf_collision_filtering_witness:
  "well_formed (\<lparr>HierarchicalSubject = Array [Str ''Body|Arm|Hand''],
                Subject = Array [Str ''Hand'', Str ''Foot''], Keywords = Array []\<rparr> :: safe_integer IMetadata) \<and>
   convertMetadataToHierarchy safe_integer_toString
     (\<lparr>HierarchicalSubject = Array [Str ''Body|Arm|Hand''],
      Subject = Array [Str ''Hand'', Str ''Foot''], Keywords = Array []\<rparr> :: safe_integer IMetadata) ''|''
   = Inr [[''Body'', ''Arm'', ''Hand''], [''Foot'']]"
proof -
  let ?e = "(\<lparr>HierarchicalSubject = Array [Str ''Body|Arm|Hand''],
             Subject = Array [Str ''Hand'', Str ''Foot''], Keywords = Array []\<rparr> :: safe_integer IMetadata)"
  have wf: "well_formed ?e" by (simp add: well_formed_def)
  have sp: "String_split ''Body|Arm|Hand'' ''|'' = [''Body'', ''Arm'', ''Hand'']"
    by (simp add: String_split_def)
  from leaf_collision_filtering [OF wf, where separator = "''|''" and nts = safe_integer_toString] wf show ?thesis
    by (simp add: sp flat_union_def)
qed

text \<open>
  C2 (order and deduplication of the flat names). On every well-formed entry the flat
  names are the coerced subject entries in their order, each kept at its first
  occurrence, followed by the coerced keywords entries that are no subject entry, each
  kept at its first occurrence. The names are pairwise distinct (strings are compared
  character by character, so case matters) and are exactly the members of the two
  sequences. The result lists them after the hierarchical paths, without the leaf
  collisions; with no hierarchical entry, the result is these names as one-segment paths.
\<close>

theorem flat_union_order_dedup:
  assumes "well_formed entry"
  shows "\<exists>hier names.
     hier = map (\<lambda>s. String_split s separator) (coerce nts (HierarchicalSubject entry)) \<and>
     names = first_occurrences (coerce nts (Subject entry)) @
             first_occurrences (filter (\<lambda>k. k \<notin> set (coerce nts (Subject entry))) (coerce nts (Keywords entry))) \<and>
     distinct names \<and>
     set names = set (coerce nts (Subject entry)) \<union> set (coerce nts (Keywords entry)) \<and>
     convertMetadataToHierarchy nts entry separator =
       Inr (hier @ map (\<lambda>name. [name]) (filter (\<lambda>name. name \<notin> set (leaf_names hier)) names)) \<and>
     (hier = [] \<longrightarrow> convertMetadataToHierarchy nts entry separator = Inr (map (\<lambda>name. [name]) names))"
proof -
  let ?names = "flat_union (coerce nts (Subject entry)) (coerce nts (Keywords entry))"
  have "distinct ?names" by (rule distinct_flat_union)
  moreover have "set ?names = set (coerce nts (Subject entry)) \<union> set (coerce nts (Keywords entry))"
    by (rule set_flat_union)
  ultimately show ?thesis
    using convert_normal_form [OF assms, where sep = separator and nts = nts]
    by (simp add: flat_union_def leaf_names_def)
qed

theorem flat_union_order_dedup_witness:
  "well_formed (\<lparr>HierarchicalSubject = Array [], Subject = Array [Str ''Red'', Str ''Blue''],
                Keywords = Array [Str ''Blue'', Str ''Green'']\<rparr> :: safe_integer IMetadata) \<and>
   convertMetadataToHierarchy safe_integer_toString
     (\<lparr>HierarchicalSubject = Array [], Subject = Array [Str ''Red'', Str ''Blue''],
      Keywords = Array [Str ''Blue'', Str ''Green'']\<rparr> :: safe_integer IMetadata) ''|''
   = Inr [[''Red''], [''Blue''], [''Green'']]"
proof -
  let ?e = "(\<lparr>HierarchicalSubject = Array [], Subject = Array [Str ''Red'', Str ''Blue''],
             Keywords = Array [Str ''Blue'', Str ''Green'']\<rparr> :: safe_integer IMetadata)"
  have wf: "well_formed ?e" by (simp add: well_formed_def)
  from flat_union_order_dedup [OF wf, where separator = "''|''" and nts = safe_integer_toString] wf show ?thesis
    by (simp add: leaf_names_def)
qed

text \<open>
  C8 (empty input, empty output). When each of the three fields is absent
  (\<^verbatim>\<open>undefined\<close> or \<^verbatim>\<open>null\<close>), the empty string or the empty array, the result is the
  empty list of paths, with every separator.
\<close>

theorem empty_input_empty_output:
  assumes "absent_or_empty (HierarchicalSubject entry)"
    and "absent_or_empty (Subject entry)"
    and "absent_or_empty (Keywords entry)"
  shows "convertMetadataToHierarchy nts entry separator = Inr []"
proof -
  have c: "coerce nts f = []" and w: "well_formed_field f" if "absent_or_empty f" for f
    using that by (auto simp: absent_or_empty_def)
  from assms have "well_formed entry" by (simp add: well_formed_def w)
  from convert_normal_form [OF this, where sep = separator and nts = nts] assms show ?thesis
    by (simp add: c flat_union_def)
qed

theorem empty_input_empty_output_witness:
  "absent_or_empty (Single Undefined :: safe_integer raw) \<and>
   absent_or_empty (Single (Str []) :: safe_integer raw) \<and>
   absent_or_empty (Array [] :: safe_integer raw) \<and>
   convertMetadataToHierarchy safe_integer_toString
     (\<lparr>HierarchicalSubject = Single Undefined, Subject = Single (Str []), Keywords = Array []\<rparr> :: safe_integer IMetadata) ''|''
   = Inr []"
proof -
  have a: "absent_or_empty (Single Undefined :: safe_integer raw)"
    "absent_or_empty (Single (Str []) :: safe_integer raw)"
    "absent_or_empty (Array [] :: safe_integer raw)"
    by (simp_all add: absent_or_empty_def)
  from empty_input_empty_output [where entry = "(\<lparr>HierarchicalSubject = Single Undefined,
      Subject = Single (Str []), Keywords = Array []\<rparr> :: safe_integer IMetadata)" and separator = "''|''"
      and nts = safe_integer_toString] a
  show ?thesis by simp
qed

text \<open>
  C10 (no deduplication inside the hierarchical field). The entry whose hierarchical
  field holds \<^verbatim>\<open>"A|B"\<close> twice and whose subject holds the leaf \<^verbatim>\<open>"B"\<close> yields the path
  \<^verbatim>\<open>["A","B"]\<close> twice and no flat path. In general the result starts with one path for
  every coerced hierarchical entry, in the order of the entries, whatever their values;
  all that follows are one-segment paths.
\<close>

theorem hierarchical_duplicates_kept:
  "convertMetadataToHierarchy (nts :: 'n \<Rightarrow> string)
     \<lparr>HierarchicalSubject = Array [Str ''A|B'', Str ''A|B''], Subject = Array [Str ''B''],
      Keywords = Single Undefined\<rparr> ''|''
   = Inr [[''A'', ''B''], [''A'', ''B'']] \<and>
   (\<forall>entry separator. well_formed entry \<longrightarrow>
      (\<exists>flat. convertMetadataToHierarchy nts entry separator =
         Inr (map (\<lambda>s. String_split s separator) (coerce nts (HierarchicalSubject entry)) @ flat) \<and>
         (\<forall>p\<in>set flat. length p = 1)))"
proof (intro conjI allI impI)
  let ?e = "\<lparr>HierarchicalSubject = Array [Str ''A|B'', Str ''A|B''], Subject = Array [Str ''B''],
             Keywords = Single Undefined\<rparr> :: 'n IMetadata"
  have wf: "well_formed (?e :: 'n IMetadata)" by (simp add: well_formed_def)
  have sp: "String_split ''A|B'' ''|'' = [''A'', ''B'']" by (simp add: String_split_def)
  from convert_normal_form [OF wf, where sep = "''|''" and nts = nts]
  show "convertMetadataToHierarchy nts ?e ''|'' = Inr [[''A'', ''B''], [''A'', ''B'']]"
    by (simp add: sp flat_union_def leaf_names_def)
next
  fix entry :: "'n IMetadata" and separator
  assume "well_formed entry"
  from convert_normal_form [OF this, where sep = separator and nts = nts]
  show "\<exists>flat. convertMetadataToHierarchy nts entry separator =
         Inr (map (\<lambda>s. String_split s separator) (coerce nts (HierarchicalSubject entry)) @ flat) \<and>
         (\<forall>p\<in>set flat. length p = 1)"
    by auto
qed

theorem hierarchical_duplicates_kept_witness:
  "well_formed (\<lparr>HierarchicalSubject = Array [Str ''X/Y'', Str ''X/Y''], Subject = Single Undefined,
                Keywords = Single (Str ''Y'')\<rparr> :: safe_integer IMetadata) \<and>
   (\<exists>flat. convertMetadataToHierarchy safe_integer_toString
      (\<lparr>HierarchicalSubject = Array [Str ''X/Y'', Str ''X/Y''], Subject = Single Undefined,
       Keywords = Single (Str ''Y'')\<rparr> :: safe_integer IMetadata) ''/''
     = Inr ([[''X'', ''Y''], [''X'', ''Y'']] @ flat) \<and> (\<forall>p\<in>set flat. length p = 1))"
proof -
  let ?e = "(\<lparr>HierarchicalSubject = Array [Str ''X/Y'', Str ''X/Y''], Subject = Single Undefined,
             Keywords = Single (Str ''Y'')\<rparr> :: safe_integer IMetadata)"
  have wf: "well_formed ?e" by (simp add: well_formed_def)
  have sp: "String_split ''X/Y'' ''/'' = [''X'', ''Y'']" by (simp add: String_split_def)
  from hierarchical_duplicates_kept have
    "\<exists>flat. convertMetadataToHierarchy safe_integer_toString ?e ''/'' =
         Inr (map (\<lambda>s. String_split s ''/'') (coerce safe_integer_toString (HierarchicalSubject ?e)) @ flat) \<and>
         (\<forall>p\<in>set flat. length p = 1)"
    using wf by blast
  with wf show ?thesis by (simp add: sp)
qed

text \<open>
  C7 (coercion rule). On every well-formed entry the result is built from the three
  coerced sequences alone: the split entries of the coerced hierarchical field, then the
  names of the coerced subject and keywords fields that are no leaf. For each field the
  strings the function works on are the coerced sequence. The coerced sequence of an
  array is the string representations of its elements, in order; that of a single
  non-empty string is the string itself; that of a single number is its printed form;
  that of \<^verbatim>\<open>undefined\<close>, \<^verbatim>\<open>null\<close>, the empty string and the empty array is empty. So a
  subject or a hierarchical field that is the number printed \<^verbatim>\<open>123\<close> gives the path
  \<^verbatim>\<open>["123"]\<close>, and the single string \<^verbatim>\<open>"A|B"\<close> in the hierarchical field gives the path
  \<^verbatim>\<open>["A","B"]\<close>, as the one-element array does.
\<close>

theorem coercion_rule:
  "(well_formed entry \<longrightarrow>
      convertMetadataToHierarchy nts entry separator =
        Inr (map (\<lambda>s. String_split s separator) (coerce nts (HierarchicalSubject entry)) @
             map (\<lambda>name. [name])
               (filter (\<lambda>name. name \<notin> set (leaf_names (map (\<lambda>s. String_split s separator)
                                                        (coerce nts (HierarchicalSubject entry)))))
                  (flat_union (coerce nts (Subject entry)) (coerce nts (Keywords entry)))))) \<and>
   (well_formed_field f \<longrightarrow>
      Array_map (toString nts) (parseExifFieldAsString nts f) = Inr (coerce nts f)) \<and>
   coerce nts (Array xs) = map (string_of nts) xs \<and>
   string_of nts (Str s) = s \<and> string_of nts (Num n) = nts n \<and>
   string_of nts (Bool b) = (if b then ''true'' else ''false'') \<and>
   (s \<noteq> [] \<longrightarrow> coerce nts (Single (Str s)) = [s]) \<and>
   (nts n \<noteq> [] \<longrightarrow> coerce nts (Single (Num n)) = [nts n]) \<and>
   coerce nts (Single Undefined) = [] \<and>
   coerce nts (Single Null) = [] \<and>
   coerce nts (Single (Str [])) = [] \<and>
   coerce nts (Array []) = [] \<and>
   (nts n = ''123'' \<longrightarrow>
      convertMetadataToHierarchy nts
        \<lparr>HierarchicalSubject = Single Undefined, Subject = Single (Num n),
         Keywords = Single Undefined\<rparr> ''|'' = Inr [[''123'']] \<and>
      convertMetadataToHierarchy nts
        \<lparr>HierarchicalSubject = Single (Num n), Subject = Single Undefined,
         Keywords = Single Undefined\<rparr> ''|'' = Inr [[''123'']] \<and>
      convertMetadataToHierarchy nts
        \<lparr>HierarchicalSubject = Single Undefined, Subject = Single Undefined,
         Keywords = Array [Num n]\<rparr> ''|'' = Inr [[''123'']]) \<and>
   convertMetadataToHierarchy nts
     \<lparr>HierarchicalSubject = Single (Str ''A|B''), Subject = Single Undefined,
      Keywords = Single Undefined\<rparr> ''|'' = Inr [[''A'', ''B'']] \<and>
   convertMetadataToHierarchy nts
     \<lparr>HierarchicalSubject = Array [Str ''A|B''], Subject = Single Undefined,
      Keywords = Single Undefined\<rparr> ''|'' = Inr [[''A'', ''B'']] \<and>
   (s \<noteq> [] \<longrightarrow>
      convertMetadataToHierarchy nts (entry\<lparr>HierarchicalSubject := Single (Str s)\<rparr>) separator =
      convertMetadataToHierarchy nts (entry\<lparr>HierarchicalSubject := Array [Str s]\<rparr>) separator)"
proof -
  have sp: "String_split ''A|B'' ''|'' = [''A'', ''B'']" "String_split ''123'' ''|'' = [''123'']"
    by (simp_all add: String_split_def)
  have num: "convertMetadataToHierarchy nts
        \<lparr>HierarchicalSubject = Single Undefined, Subject = Single (Num n),
         Keywords = Single Undefined\<rparr> ''|'' = Inr [[''123'']] \<and>
      convertMetadataToHierarchy nts
        \<lparr>HierarchicalSubject = Single (Num n), Subject = Single Undefined,
         Keywords = Single Undefined\<rparr> ''|'' = Inr [[''123'']] \<and>
      convertMetadataToHierarchy nts
        \<lparr>HierarchicalSubject = Single Undefined, Subject = Single Undefined,
         Keywords = Array [Num n]\<rparr> ''|'' = Inr [[''123'']]"
    if "nts n = ''123''"
    using that by (simp add: convert_normal_form well_formed_def sp flat_union_def leaf_names_def)
  have str: "convertMetadataToHierarchy nts
     \<lparr>HierarchicalSubject = Single (Str ''A|B''), Subject = Single Undefined,
      Keywords = Single Undefined\<rparr> ''|'' = Inr [[''A'', ''B'']]"
    "convertMetadataToHierarchy nts
     \<lparr>HierarchicalSubject = Array [Str ''A|B''], Subject = Single Undefined,
      Keywords = Single Undefined\<rparr> ''|'' = Inr [[''A'', ''B'']]"
    by (simp_all add: convert_normal_form well_formed_def sp flat_union_def)
  have eq: "convertMetadataToHierarchy nts (entry\<lparr>HierarchicalSubject := Single (Str s)\<rparr>) separator =
      convertMetadataToHierarchy nts (entry\<lparr>HierarchicalSubject := Array [Str s]\<rparr>) separator"
    if "s \<noteq> []"
    using that by (simp add: convertMetadataToHierarchy_def)
  show ?thesis
    using num str eq by (simp add: convert_normal_form strings_of_field)
qed

theorem coercion_rule_witness:
  "well_formed (\<lparr>HierarchicalSubject = Single (Str ''A|B''),
                Subject = Array [Num (Abs_safe_integer 123), Str ''B'', Str ''C''],
                Keywords = Single (Num (Abs_safe_integer (- 45)))\<rparr> :: safe_integer IMetadata) \<and>
   well_formed_field (Array [Num (Abs_safe_integer 123), Str ''B'', Str ''C'']) \<and>
   ''A|B'' \<noteq> [] \<and>
   safe_integer_toString (Abs_safe_integer 123) = ''123'' \<and>
   safe_integer_toString (Abs_safe_integer (- 45)) = ''-45'' \<and>
   coerce safe_integer_toString (Array [Num (Abs_safe_integer 123), Str ''B'', Str ''C'']) =
     [''123'', ''B'', ''C''] \<and>
   coerce safe_integer_toString (Single (Num (Abs_safe_integer 123))) = [''123''] \<and>
   convertMetadataToHierarchy safe_integer_toString
     (\<lparr>HierarchicalSubject = Single (Str ''A|B''),
      Subject = Array [Num (Abs_safe_integer 123), Str ''B'', Str ''C''],
      Keywords = Single (Num (Abs_safe_integer (- 45)))\<rparr> :: safe_integer IMetadata) ''|'' =
     Inr [[''A'', ''B''], [''123''], [''C''], [''-45'']] \<and>
   convertMetadataToHierarchy safe_integer_toString
     (\<lparr>HierarchicalSubject = Single Undefined, Subject = Single (Num (Abs_safe_integer 123)),
      Keywords = Single Undefined\<rparr> :: safe_integer IMetadata) ''|'' = Inr [[''123'']]"
proof -
  let ?e = "(\<lparr>HierarchicalSubject = Single (Str ''A|B''),
             Subject = Array [Num (Abs_safe_integer 123), Str ''B'', Str ''C''],
             Keywords = Single (Num (Abs_safe_integer (- 45)))\<rparr> :: safe_integer IMetadata)"
  have n: "safe_integer_toString (Abs_safe_integer 123) = ''123''"
    "safe_integer_toString (Abs_safe_integer (- 45)) = ''-45''"
    by (simp_all add: safe_integer_toString_def Abs_safe_integer_inverse digit_char_def)
  have wf: "well_formed ?e" by (simp add: well_formed_def)
  have sp: "String_split ''A|B'' ''|'' = [''A'', ''B'']" by (simp add: String_split_def)
  from coercion_rule [where entry = ?e and nts = safe_integer_toString and separator = "''|''"
      and f = "Subject ?e" and xs = "[Num (Abs_safe_integer 123), Str ''B'', Str ''C'']"
      and s = "''A|B''" and n = "Abs_safe_integer 123" and b = True] wf n
  show ?thesis by (simp add: sp flat_union_def leaf_names_def)
qed

text \<open>
  C9 (well-formedness of the paths of the result), as stated, fails: with the separator
  \<^verbatim>\<open>"|"\<close> the hierarchical entry \<^verbatim>\<open>"A||B"\<close> gives the path \<^verbatim>\<open>["A","","B"]\<close>, and the
  empty string in an array of subjects gives the path \<^verbatim>\<open>[""]\<close>; both have an empty
  segment.
\<close>

theorem path_invariant_counterexample:
  "''|'' \<noteq> [] \<and>
   convertMetadataToHierarchy safe_integer_toString
     (\<lparr>HierarchicalSubject = Array [Str ''A||B''], Subject = Array [Str []],
      Keywords = Single Undefined\<rparr> :: safe_integer IMetadata) ''|'' = Inr [[''A'', [], ''B''], [[]]] \<and>
   \<not> path_invariant [''A'', [], ''B'']"
  by (simp add: convertMetadataToHierarchy_def String_split_def new_Set_def Set_add_def
      last_elem_def path_invariant_def)

text \<open>
  C9, amended. On every well-formed entry and with every non-empty separator, every
  path of the result has at least one segment. (A segment may be the empty string.)
\<close>

theorem paths_not_empty:
  assumes "well_formed entry" and "separator \<noteq> []"
  shows "\<exists>paths. convertMetadataToHierarchy nts entry separator = Inr paths \<and> (\<forall>p\<in>set paths. p \<noteq> [])"
proof -
  have "p \<noteq> []" if "p \<in> set (map (\<lambda>s. String_split s separator) xs)" for p xs
    using that assms(2) by (auto simp: String_split_not_Nil)
  with convert_normal_form [OF assms(1), where sep = separator and nts = nts] show ?thesis
    by auto
qed

theorem paths_not_empty_witness:
  "well_formed (\<lparr>HierarchicalSubject = Array [Str ''A||B''], Subject = Array [Str []],
                Keywords = Single Undefined\<rparr> :: safe_integer IMetadata) \<and> ''|'' \<noteq> [] \<and>
   (\<exists>paths. convertMetadataToHierarchy safe_integer_toString
      (\<lparr>HierarchicalSubject = Array [Str ''A||B''], Subject = Array [Str []],
       Keywords = Single Undefined\<rparr> :: safe_integer IMetadata) ''|'' = Inr paths \<and> (\<forall>p\<in>set paths. p \<noteq> []))"
proof -
  have wf: "well_formed (\<lparr>HierarchicalSubject = Array [Str ''A||B''], Subject = Array [Str []],
                Keywords = Single Undefined\<rparr> :: safe_integer IMetadata)"
    by (simp add: well_formed_def)
  have ne: "''|'' \<noteq> []" by simp
  from paths_not_empty [OF wf ne] wf show ?thesis by simp
qed

subsection \<open>Writing\<close>

text \<open>
  C5 (shape of the written fields). For a non-empty list of paths, each with at least
  one segment, \<^verbatim>\<open>writeTags\<close> issues one call of the writer, for the given file. Its
  \<^verbatim>\<open>HierarchicalSubject\<close> is the list of the joined paths: the first segment of the
  path, then, for every further segment, the separator of the object and the segment.
  Its \<^verbatim>\<open>Subject\<close> and its \<^verbatim>\<open>Keywords\<close> are both the list of the last segments of the
  paths. All three follow the order of the paths. This holds for every separator.
\<close>

theorem serializer_field_shapes:
  assumes "tagNameHierarchy \<noteq> []" and "\<forall>p\<in>set tagNameHierarchy. p \<noteq> []"
  shows "writeTags this filepath tagNameHierarchy ep =
     ep @ [\<lparr>call_file = filepath,
            call_data =
              \<lparr>HierarchicalSubject =
                 Array (map (\<lambda>p. Str (hd p @ concat (map (\<lambda>s. hierarchicalSeparator this @ s) (tl p))))
                          tagNameHierarchy),
               Subject = Array (map (\<lambda>p. Str (last p)) tagNameHierarchy),
               Keywords = Array (map (\<lambda>p. Str (last p)) tagNameHierarchy)\<rparr>,
            call_args = [''overwrite_original '']\<rparr>]"
proof -
  from assms(2) have "map last_elem tagNameHierarchy = map (\<lambda>p. Str (last p)) tagNameHierarchy"
    by (simp add: last_elem_def)
  moreover have "Array_join p sep = hd p @ concat (map (\<lambda>s. sep @ s) (tl p))" if "p \<noteq> []" for p sep
    using that Array_join_Cons [of "hd p" "tl p" sep] by simp
  with assms(2) have "map (\<lambda>p. Str (Array_join p (hierarchicalSeparator this))) tagNameHierarchy =
      map (\<lambda>p. Str (hd p @ concat (map (\<lambda>s. hierarchicalSeparator this @ s) (tl p)))) tagNameHierarchy"
    by simp
  ultimately show ?thesis using assms(1) by (simp add: writeTags_def Let_def)
qed

theorem serializer_field_shapes_witness:
  "[[''Body'', ''Hand''], [''Foot'']] \<noteq> [] \<and>
   [''Body'', ''Hand''] \<noteq> [] \<and> [''Foot''] \<noteq> [] \<and>
   writeTags \<lparr>hierarchicalSeparator = ''|''\<rparr> ''a.jpg'' [[''Body'', ''Hand''], [''Foot'']] [] =
     [\<lparr>call_file = ''a.jpg'',
       call_data = (\<lparr>HierarchicalSubject = Array [Str ''Body|Hand'', Str ''Foot''],
                    Subject = Array [Str ''Hand'', Str ''Foot''],
                    Keywords = Array [Str ''Hand'', Str ''Foot'']\<rparr> :: safe_integer IMetadata),
       call_args = [''overwrite_original '']\<rparr>]"
proof -
  have h: "[[''Body'', ''Hand''], [''Foot'']] \<noteq> []"
    "\<forall>p\<in>set [[''Body'', ''Hand''], [''Foot'']]. p \<noteq> []"
    by simp_all
  from serializer_field_shapes [OF h, of "\<lparr>hierarchicalSeparator = ''|''\<rparr>" "''a.jpg''" "[]"] h
  show ?thesis by simp
qed

text \<open>
  C6 (no write for the empty list). With the empty list of paths \<^verbatim>\<open>writeTags\<close> leaves
  the calls of the writer as they were; whenever it adds a call, the list of paths is not
  empty; and for a non-empty list it adds exactly one call, for the given file.
\<close>

theorem empty_input_no_write:
  "writeTags this filepath [] ep = ep \<and>
   (writeTags this filepath tagNameHierarchy ep \<noteq> ep \<longrightarrow> tagNameHierarchy \<noteq> []) \<and>
   (tagNameHierarchy \<noteq> [] \<longrightarrow>
      (\<exists>call. writeTags this filepath tagNameHierarchy ep = ep @ [call] \<and> call_file call = filepath))"
  by (auto simp: writeTags_def Let_def)

theorem empty_input_no_write_witness:
  "writeTags \<lparr>hierarchicalSeparator = ''|''\<rparr> ''a.jpg'' [] ([] :: safe_integer writeMetadata_call list) = [] \<and>
   writeTags \<lparr>hierarchicalSeparator = ''|''\<rparr> ''a.jpg'' [[''Foot'']] ([] :: safe_integer writeMetadata_call list) \<noteq> [] \<and>
   [[''Foot'']] \<noteq> ([] :: string list list) \<and>
   (\<exists>call. writeTags \<lparr>hierarchicalSeparator = ''|''\<rparr> ''a.jpg'' [[''Foot'']] ([] :: safe_integer writeMetadata_call list) = [] @ [call] \<and>
      call_file call = ''a.jpg'')"
proof -
  have "writeTags \<lparr>hierarchicalSeparator = ''|''\<rparr> ''a.jpg'' [[''Foot'']] ([] :: safe_integer writeMetadata_call list) \<noteq> []"
    by (simp add: writeTags_def Let_def)
  with empty_input_no_write [of "\<lparr>hierarchicalSeparator = ''|''\<rparr>" "''a.jpg''" "[] :: safe_integer writeMetadata_call list" "[[''Foot'']]"]
  show ?thesis by simp
qed

subsection \<open>The empty separator\<close>

text \<open>
  C4 (failure on the empty separator), as stated, fails: with the empty separator the
  reading direction returns a result for the entry \<^verbatim>\<open>"AB"\<close>, and the writing direction
  issues its write.
\<close>

theorem empty_separator_counterexample:
  "convertMetadataToHierarchy safe_integer_toString
     (\<lparr>HierarchicalSubject = Array [Str ''AB''], Subject = Single Undefined,
      Keywords = Single Undefined\<rparr> :: safe_integer IMetadata) [] = Inr [[''A'', ''B'']] \<and>
   writeTags \<lparr>hierarchicalSeparator = []\<rparr> ''a.jpg'' [[''A'', ''B'']] [] =
     [\<lparr>call_file = ''a.jpg'',
       call_data = (\<lparr>HierarchicalSubject = Array [Str ''AB''], Subject = Array [Str ''B''],
                    Keywords = Array [Str ''B'']\<rparr> :: safe_integer IMetadata),
       call_args = [''overwrite_original '']\<rparr>]"
  by (simp add: convertMetadataToHierarchy_def String_split_def new_Set_def writeTags_def last_elem_def Let_def)

text \<open>
  C4, amended. Neither direction checks the separator, and there is no error for an
  invalid one. With the empty separator the reading direction returns a result on
  exactly the entries on which it returns one with every other separator, namely the
  well-formed ones; on the others it throws the \<^verbatim>\<open>TypeError\<close> that it throws with every
  separator. With the empty separator the writing direction issues no write for the
  empty list of paths and its one write for every other list. The one guard against an
  empty separator is in the constructor, which never yields one.
\<close>

theorem empty_separator_no_failure:
  "((\<exists>paths. convertMetadataToHierarchy nts entry [] = Inr paths) \<longleftrightarrow> well_formed entry) \<and>
   ((\<exists>paths. convertMetadataToHierarchy nts entry separator = Inr paths) \<longleftrightarrow> well_formed entry) \<and>
   (\<not> well_formed entry \<longrightarrow>
      convertMetadataToHierarchy nts entry [] = Inl TypeError \<and>
      convertMetadataToHierarchy nts entry separator = Inl TypeError) \<and>
   writeTags (setHierarchicalSeparator this []) filepath [] ep = ep \<and>
   (tagNameHierarchy \<noteq> [] \<longrightarrow>
      (\<exists>call. writeTags (setHierarchicalSeparator this []) filepath tagNameHierarchy ep = ep @ [call] \<and>
         call_file call = filepath)) \<and>
   hierarchicalSeparator (ExifIO_constructor stored) \<noteq> []"
proof -
  have r: "(\<exists>paths. convertMetadataToHierarchy nts entry sep = Inr paths) \<longleftrightarrow> well_formed entry" for sep
    using convert_normal_form [of entry nts sep] convert_TypeError [of entry nts sep]
    by (cases "well_formed entry") simp_all
  have c: "hierarchicalSeparator (ExifIO_constructor stored) \<noteq> []"
    by (simp add: ExifIO_constructor_def split: option.splits)
  show ?thesis
    using r [of "[]"] r [of separator] c
    by (simp add: convert_TypeError writeTags_def Let_def)
qed

theorem empty_separator_no_failure_witness:
  "well_formed (\<lparr>HierarchicalSubject = Single (Str ''AB''), Subject = Array [Str ''B'', Str ''C''],
                Keywords = Single Undefined\<rparr> :: safe_integer IMetadata) \<and>
   (\<exists>paths. convertMetadataToHierarchy safe_integer_toString
      \<lparr>HierarchicalSubject = Single (Str ''AB''), Subject = Array [Str ''B'', Str ''C''],
       Keywords = Single Undefined\<rparr> [] = Inr paths) \<and>
   \<not> well_formed (\<lparr>HierarchicalSubject = Single (Str ''AB''), Subject = Array [Null],
                  Keywords = Single Undefined\<rparr> :: safe_integer IMetadata) \<and>
   convertMetadataToHierarchy safe_integer_toString
     \<lparr>HierarchicalSubject = Single (Str ''AB''), Subject = Array [Null],
      Keywords = Single Undefined\<rparr> [] = Inl TypeError \<and>
   convertMetadataToHierarchy safe_integer_toString
     \<lparr>HierarchicalSubject = Single (Str ''AB''), Subject = Array [Null],
      Keywords = Single Undefined\<rparr> ''|'' = Inl TypeError \<and>
   [[''A'', ''B'']] \<noteq> ([] :: string list list) \<and>
   (\<exists>call. writeTags (setHierarchicalSeparator \<lparr>hierarchicalSeparator = ''|''\<rparr> []) ''a.jpg''
             [[''A'', ''B'']] ([] :: safe_integer writeMetadata_call list) = [] @ [call] \<and>
      call_file call = ''a.jpg'') \<and>
   hierarchicalSeparator (ExifIO_constructor (Some [])) = ''|''"
proof -
  let ?e = "\<lparr>HierarchicalSubject = Single (Str ''AB''), Subject = Array [Str ''B'', Str ''C''],
             Keywords = Single Undefined\<rparr> :: safe_integer IMetadata"
  let ?b = "\<lparr>HierarchicalSubject = Single (Str ''AB''), Subject = Array [Null],
             Keywords = Single Undefined\<rparr> :: safe_integer IMetadata"
  have wf: "well_formed ?e" "\<not> well_formed ?b" by (simp_all add: well_formed_def)
  have c: "hierarchicalSeparator (ExifIO_constructor (Some [])) = ''|''"
    by (simp add: ExifIO_constructor_def)
  from empty_separator_no_failure [of safe_integer_toString ?e "''|''"
      "\<lparr>hierarchicalSeparator = ''|''\<rparr>" "''a.jpg''" "[] :: safe_integer writeMetadata_call list"
      "[[''A'', ''B'']]" "Some []"]
    empty_separator_no_failure [of safe_integer_toString ?b "''|''"
      "\<lparr>hierarchicalSeparator = ''|''\<rparr>" "''a.jpg''" "[] :: safe_integer writeMetadata_call list"
      "[[''A'', ''B'']]" "Some []"]
    wf c
  show ?thesis by simp
qed

subsection \<open>Writing, then reading\<close>




end
